theory Spec2Isabelle
  imports Complex_Main "HOL-Library.Sublist"
begin

section \<open>Python values\<close>

text \<open>
  Python floats are modelled as exact real numbers and Python strings as \<^typ>\<open>string\<close>,
  one \<^typ>\<open>char\<close> per code point (code points 0 to 255).  Untyped dictionaries
  (\<open>Dict[str, Any]\<close>) are association lists from keys to \<open>pyval\<close>, in insertion order;
  \<open>d.get(k)\<close> is \<^const>\<open>map_of\<close>.
\<close>

datatype pyval =
    PNone
  | PBool bool
  | PInt int
  | PFloat real
  | PStr string
  | PList "pyval list"
  | PDict "(string \<times> pyval) list"

type_synonym pydict = "(string \<times> pyval) list"

section \<open>rl/core/environment/types.py\<close>

datatype action_type = SUGGEST_RULE | SUGGEST_MULTIPLE | NO_SUGGESTION

datatype user_response = ACCEPTED | REJECTED | MODIFIED | IGNORED

fun action_type_value :: "action_type \<Rightarrow> string" where
  "action_type_value SUGGEST_RULE = ''suggest_rule''"
| "action_type_value SUGGEST_MULTIPLE = ''suggest_multiple''"
| "action_type_value NO_SUGGESTION = ''no_suggestion''"

fun user_response_value :: "user_response \<Rightarrow> string" where
  "user_response_value ACCEPTED = ''accepted''"
| "user_response_value REJECTED = ''rejected''"
| "user_response_value MODIFIED = ''modified''"
| "user_response_value IGNORED = ''ignored''"

record observation =
  snapshot_id :: string
  artifact_id :: string
  snapshot :: pydict
  previous_snapshot :: "pydict option"
  user_intent :: "string option"
  component_id :: "string option"
  component_type :: "string option"
  obs_platform :: "string option"
  interaction_history :: "pydict option"
  temporal_context :: "pydict option"

record action =
  act_type :: action_type
  suggested_rules :: "pydict list"
  confidence_scores :: "real list"
  reasoning :: "string option"

record reward =
  reward_value :: real
  reward_source :: string
  reward_components :: "(string \<times> real) list"
  reward_metadata :: pydict

record step_result =
  sr_observation :: observation
  sr_reward :: reward
  sr_done :: bool
  sr_info :: pydict

section \<open>rl/core/environment/environment.py\<close>

datatype py_error = ValueError string | AttributeError

record design_environment =
  preference_weight :: real
  change_weight :: real
  temporal_weight :: real
  max_suggestions :: int
  current_observation :: "observation option"
  last_action :: "action option"
  last_user_response :: "user_response option"
  last_changes :: "pydict list option"
  episode_step :: int
  episode_rewards :: "real list"

text \<open>\<open>DesignEnvironment.__init__\<close>: the state of an environment that was never reset.\<close>

definition init_environment :: "real \<Rightarrow> real \<Rightarrow> real \<Rightarrow> int \<Rightarrow> design_environment" where
  "init_environment pw cw tw ms =
     \<lparr> preference_weight = pw, change_weight = cw, temporal_weight = tw,
       max_suggestions = ms, current_observation = None, last_action = None,
       last_user_response = None, last_changes = None, episode_step = 0,
       episode_rewards = [] \<rparr>"

definition reset :: "design_environment \<Rightarrow> observation \<Rightarrow> observation \<times> design_environment" where
  "reset env obs =
     (obs, env\<lparr> current_observation := Some obs, last_action := None,
                last_user_response := None, last_changes := None,
                episode_step := 0, episode_rewards := [] \<rparr>)"

text \<open>The three unweighted components computed inside \<open>_compute_reward\<close>.\<close>

fun preference_reward :: "user_response \<Rightarrow> real" where
  "preference_reward ACCEPTED = 1"
| "preference_reward REJECTED = - 1"
| "preference_reward MODIFIED = 1 / 2"
| "preference_reward IGNORED = 0"

text \<open>\<open>if changes:\<close> is false for \<open>None\<close> and for the empty list.\<close>

definition change_reward :: "pydict list option \<Rightarrow> real" where
  "change_reward changes =
     (case changes of
        None \<Rightarrow> 0
      | Some [] \<Rightarrow> 0
      | Some cs \<Rightarrow>
          (let num_changes = length cs;
               base = min (real num_changes / 10) 1;
               property_changes =
                 length (filter (\<lambda>c. map_of c ''change_scope'' = Some (PStr ''property'')) cs)
           in if property_changes > 0
              then base + (2 / 10) * min (real property_changes / 5) 1
              else base))"

definition temporal_reward :: "real option \<Rightarrow> real" where
  "temporal_reward duration_ms =
     (case duration_ms of
        None \<Rightarrow> 0
      | Some d \<Rightarrow>
          if 1000 \<le> d \<and> d \<le> 5000 then 1 - (d - 1000) / 4000
          else if d < 1000 then 1 / 2
          else max 0 (1 - (d - 5000) / 10000))"

definition num_changes_of :: "pydict list option \<Rightarrow> int" where
  "num_changes_of changes = (case changes of None \<Rightarrow> 0 | Some cs \<Rightarrow> int (length cs))"

definition compute_reward ::
  "design_environment \<Rightarrow> action \<Rightarrow> user_response \<Rightarrow> pydict list option \<Rightarrow> real option \<Rightarrow> reward"
where
  "compute_reward env act resp changes duration_ms =
     (let components =
            [(''preference'', preference_reward resp * preference_weight env),
             (''change_magnitude'', change_reward changes * change_weight env),
             (''temporal'', temporal_reward duration_ms * temporal_weight env)];
          total_reward = sum_list (map snd components);
          metadata =
            [(''user_response'', PStr (user_response_value resp)),
             (''num_suggestions'', PInt (int (length (suggested_rules act)))),
             (''num_changes'', PInt (num_changes_of changes)),
             (''duration_ms'', (case duration_ms of None \<Rightarrow> PNone | Some d \<Rightarrow> PFloat d))]
      in \<lparr> reward_value = total_reward, reward_source = ''composite'',
           reward_components = components, reward_metadata = metadata \<rparr>)"

text \<open>
  \<open>step\<close> returns the error or the result together with the environment afterwards.
  An \<open>Observation\<close> object is always truthy, so \<open>if next_observation:\<close> tests for \<open>None\<close>.
\<close>

definition step ::
  "design_environment \<Rightarrow> action \<Rightarrow> user_response \<Rightarrow> pydict list option \<Rightarrow> real option
     \<Rightarrow> observation option \<Rightarrow> (py_error + step_result) \<times> design_environment"
where
  "step env act resp changes duration_ms next_observation =
     (case current_observation env of
        None \<Rightarrow> (Inl (ValueError ''Environment not reset. Call reset() first.''), env)
      | Some cur \<Rightarrow>
          (let env1 = env\<lparr> last_action := Some act, last_user_response := Some resp,
                           last_changes := changes, episode_step := episode_step env + 1 \<rparr>;
               rw = compute_reward env1 act resp changes duration_ms;
               env2 = env1\<lparr> episode_rewards := episode_rewards env1 @ [reward_value rw] \<rparr>;
               env3 = (case next_observation of
                         None \<Rightarrow> env2
                       | Some nobs \<Rightarrow> env2\<lparr> current_observation := Some nobs \<rparr>);
               obs3 = (case next_observation of None \<Rightarrow> cur | Some nobs \<Rightarrow> nobs);
               done = (resp = ACCEPTED \<or> episode_step env3 \<ge> 10);
               info =
                 [(''episode_step'', PInt (episode_step env3)),
                  (''total_reward'', PFloat (sum_list (episode_rewards env3))),
                  (''action_type'', PStr (action_type_value (act_type act))),
                  (''user_response'', PStr (user_response_value resp)),
                  (''num_changes'', PInt (num_changes_of changes))]
           in (Inr \<lparr> sr_observation = obs3, sr_reward = rw, sr_done = done, sr_info = info \<rparr>,
               env3)))"

section \<open>Python string and dictionary operations\<close>

text \<open>\<open>str.lower()\<close> on the code points 0 to 255.\<close>

definition lower_char :: "char \<Rightarrow> char" where
  "lower_char c =
     (let n = (of_char c :: nat)
      in if (65 \<le> n \<and> n \<le> 90) \<or> (192 \<le> n \<and> n \<le> 214) \<or> (216 \<le> n \<and> n \<le> 222)
         then char_of (n + 32) else c)"

definition lower :: "string \<Rightarrow> string" where
  "lower s = map lower_char s"

text \<open>\<open>kw in s\<close> for two strings: \<open>kw\<close> occurs in \<open>s\<close> as a contiguous substring.\<close>

fun str_contains :: "string \<Rightarrow> string \<Rightarrow> bool" where
  "str_contains kw [] = (case kw of [] \<Rightarrow> True | _ # _ \<Rightarrow> False)"
| "str_contains kw (c # cs) = (if prefix kw (c # cs) then True else str_contains kw cs)"

text \<open>The truth value of a string, of an optional string and of a list.\<close>

definition truthy_str :: "string \<Rightarrow> bool" where
  "truthy_str s = (case s of [] \<Rightarrow> False | _ # _ \<Rightarrow> True)"

definition truthy_opt_str :: "string option \<Rightarrow> bool" where
  "truthy_opt_str s = (case s of None \<Rightarrow> False | Some v \<Rightarrow> truthy_str v)"

definition truthy_opt_list :: "'a list option \<Rightarrow> bool" where
  "truthy_opt_list xs = (case xs of None \<Rightarrow> False | Some [] \<Rightarrow> False | Some (_ # _) \<Rightarrow> True)"

definition truthy_opt_bool :: "bool option \<Rightarrow> bool" where
  "truthy_opt_bool b = (case b of None \<Rightarrow> False | Some v \<Rightarrow> v)"

definition present :: "'a option \<Rightarrow> bool" where
  "present x = (case x of None \<Rightarrow> False | Some _ \<Rightarrow> True)"

text \<open>\<open>str.isspace()\<close> and the regular expression class \<open>\w\<close> on the code points 0 to 255.\<close>

definition is_space :: "char \<Rightarrow> bool" where
  "is_space c = ((of_char c :: nat) \<in> {9, 10, 11, 12, 13, 28, 29, 30, 31, 32, 133, 160})"

definition is_word_char :: "char \<Rightarrow> bool" where
  "is_word_char c =
     (let n = (of_char c :: nat)
      in (48 \<le> n \<and> n \<le> 57) \<or> (65 \<le> n \<and> n \<le> 90) \<or> n = 95 \<or> (97 \<le> n \<and> n \<le> 122)
         \<or> n \<in> {170, 178, 179, 181, 185, 186, 188, 189, 190}
         \<or> (192 \<le> n \<and> n \<le> 214) \<or> (216 \<le> n \<and> n \<le> 246) \<or> (248 \<le> n \<and> n \<le> 255))"

text \<open>
  The maximal non-empty runs of characters that satisfy \<open>keep\<close>, in order;
  \<open>cur\<close> is the run being read.
\<close>

fun runs :: "(char \<Rightarrow> bool) \<Rightarrow> string \<Rightarrow> string \<Rightarrow> string list" where
  "runs keep cur [] = (case cur of [] \<Rightarrow> [] | _ # _ \<Rightarrow> [cur])"
| "runs keep cur (c # cs) =
     (if keep c then runs keep (cur @ [c]) cs
      else (case cur of [] \<Rightarrow> runs keep [] cs | _ # _ \<Rightarrow> cur # runs keep [] cs))"

text \<open>\<open>s.split()\<close>: the words between runs of whitespace.\<close>

definition split_ws :: "string \<Rightarrow> string list" where
  "split_ws s = runs (\<lambda>c. \<not> is_space c) [] s"

text \<open>\<open>re.findall(r'\b\w{3,}\b', s)\<close>: the maximal runs of word characters of length at least 3.\<close>

definition findall_words :: "string \<Rightarrow> string list" where
  "findall_words s = filter (\<lambda>w. 3 \<le> length w) (runs is_word_char [] s)"

text \<open>\<open>s.split(sep)\<close> for a one-character separator: empty fields are kept.\<close>

fun split_on :: "char \<Rightarrow> string \<Rightarrow> string \<Rightarrow> string list" where
  "split_on sep cur [] = [cur]"
| "split_on sep cur (c # cs) =
     (if c = sep then cur # split_on sep [] cs else split_on sep (cur @ [c]) cs)"

text \<open>
  \<open>d[k] = v\<close> on a dictionary kept as an association list in insertion order: an existing
  key keeps its position, a new key goes to the end.
\<close>

fun dict_set :: "'k \<Rightarrow> 'v \<Rightarrow> ('k \<times> 'v) list \<Rightarrow> ('k \<times> 'v) list" where
  "dict_set k v [] = [(k, v)]"
| "dict_set k v ((k', v') # kvs) =
     (if k = k' then (k, v) # kvs else (k', v') # dict_set k v kvs)"

definition nth_opt :: "'a list \<Rightarrow> nat \<Rightarrow> 'a option" where
  "nth_opt xs i = (if i < length xs then Some (xs ! i) else None)"

section \<open>rl/core/platform\_keyword\_classifier.py\<close>

text \<open>
  An entry of \<open>matched_keywords\<close>: a base keyword, or a learned keyword with its reward
  (the source formats the latter as \<open>keyword(reward)\<close> with two decimals).
\<close>

datatype matched_keyword = BaseKeyword string | LearnedKeyword string real

record classification_result =
  cr_dimension :: string
  cr_confidence :: real
  cr_method :: string
  cr_matched_keywords :: "matched_keyword list"
  cr_platform :: "string option"

record keyword_perf =
  correct :: int
  total :: int

text \<open>
  The state of a \<open>PlatformKeywordClassifier\<close>: platform to dimension to keyword to reward,
  and platform to dimension to keyword to counters.
\<close>

record classifier_state =
  platform_keywords :: "(string \<times> (string \<times> (string \<times> real) list) list) list"
  keyword_performance :: "(string \<times> (string \<times> (string \<times> keyword_perf) list) list) list"

definition BASE_DESIGN_DIMENSIONS :: "(string \<times> string list) list" where
  "BASE_DESIGN_DIMENSIONS =
     [(''layout'', [''layout'', ''grid'', ''alignment'', ''position'', ''arrangement'',
                    ''structure'', ''composition'']),
      (''interaction'', [''interaction'', ''flow'', ''navigation'', ''click'', ''hover'',
                         ''transition'', ''state'', ''behavior'']),
      (''content'', [''content'', ''text'', ''copy'', ''message'', ''information'', ''data'',
                     ''label'']),
      (''visual_hierarchy'', [''hierarchy'', ''emphasis'', ''prominence'', ''importance'',
                              ''level'', ''rank'']),
      (''spacing'', [''spacing'', ''margin'', ''padding'', ''gap'', ''rhythm'', ''whitespace'',
                     ''distance'']),
      (''typography'', [''typography'', ''font'', ''type'', ''text style'', ''letter'',
                        ''line height'', ''kerning'']),
      (''color'', [''color'', ''palette'', ''hue'', ''saturation'', ''contrast'', ''tone'',
                   ''shade'']),
      (''visual_elements'', [''shadow'', ''border'', ''radius'', ''gradient'', ''effect'',
                             ''filter'', ''opacity''])]"

definition SCOPE_MAPPING :: "(string \<times> string) list" where
  "SCOPE_MAPPING =
     [(''structural'', ''layout''), (''relational'', ''interaction''),
      (''compositional'', ''layout''), (''artifact_property'', ''visual_elements'')]"

text \<open>
  One iteration of the loop of \<open>_track_performance\<close>: the counters of \<open>word\<close> under
  \<open>platform\<close> and \<open>predicted_dimension\<close> are created on first use and incremented.
\<close>

definition track_word ::
  "string \<Rightarrow> string \<Rightarrow> bool \<Rightarrow> (string \<times> (string \<times> (string \<times> keyword_perf) list) list) list
     \<Rightarrow> string \<Rightarrow> (string \<times> (string \<times> (string \<times> keyword_perf) list) list) list"
where
  "track_word platform predicted_dimension is_correct kp word =
     (let dims = (case map_of kp platform of None \<Rightarrow> [] | Some d \<Rightarrow> d);
          kws = (case map_of dims predicted_dimension of None \<Rightarrow> [] | Some k \<Rightarrow> k);
          p = (case map_of kws word of None \<Rightarrow> \<lparr> correct = 0, total = 0 \<rparr> | Some q \<Rightarrow> q);
          p1 = p\<lparr> total := total p + 1 \<rparr>;
          p2 = (if is_correct then p1\<lparr> correct := correct p1 + 1 \<rparr> else p1)
      in dict_set platform (dict_set predicted_dimension (dict_set word p2 kws) dims) kp)"

definition track_performance ::
  "classifier_state \<Rightarrow> string list \<Rightarrow> string \<Rightarrow> string \<Rightarrow> string option \<Rightarrow> classifier_state"
where
  "track_performance st description_words predicted_dimension ground_truth_dimension platform =
     (case platform of
        None \<Rightarrow> st
      | Some [] \<Rightarrow> st
      | Some (c # cs) \<Rightarrow>
          st\<lparr> keyword_performance :=
                foldl (track_word (c # cs) predicted_dimension
                         (predicted_dimension = ground_truth_dimension))
                      (keyword_performance st) description_words \<rparr>)"

text \<open>
  The learned keywords consulted for a dimension: those of
  \<open>platform_keywords[platform][dimension]\<close> when the platform is given and both keys exist.
\<close>

definition learned_keywords ::
  "classifier_state \<Rightarrow> string option \<Rightarrow> string \<Rightarrow> (string \<times> real) list" where
  "learned_keywords st platform dimension =
     (case platform of
        None \<Rightarrow> []
      | Some [] \<Rightarrow> []
      | Some (c # cs) \<Rightarrow>
          (case map_of (platform_keywords st) (c # cs) of
             None \<Rightarrow> []
           | Some dims \<Rightarrow> (case map_of dims dimension of None \<Rightarrow> [] | Some kws \<Rightarrow> kws)))"

text \<open>The body of the scoring loop for one dimension: its score and its matched keywords.\<close>

definition score_dimension ::
  "classifier_state \<Rightarrow> string \<Rightarrow> string option \<Rightarrow> string \<times> string list
     \<Rightarrow> string \<times> real \<times> matched_keyword list" where
  "score_dimension st description_lower platform entry =
     (let dimension = fst entry;
          base_matched = filter (\<lambda>kw. str_contains kw description_lower) (snd entry);
          learned_matched = filter (\<lambda>kr. str_contains (fst kr) description_lower)
                                   (learned_keywords st platform dimension);
          score = real (length base_matched) + sum_list (map snd learned_matched);
          matched = map BaseKeyword base_matched
                    @ map (\<lambda>kr. LearnedKeyword (fst kr) (snd kr)) learned_matched
      in (dimension, score, matched))"

text \<open>\<open>max(items, key=score)\<close>: the first entry with the greatest score.\<close>

definition first_max ::
  "string \<times> real \<times> 'a \<Rightarrow> (string \<times> real \<times> 'a) list \<Rightarrow> string \<times> real \<times> 'a" where
  "first_max x xs = foldl (\<lambda>best y. if fst (snd y) > fst (snd best) then y else best) x xs"

definition classify_dimension ::
  "classifier_state \<Rightarrow> string \<Rightarrow> string option \<Rightarrow> string option \<Rightarrow> string option
     \<Rightarrow> classification_result \<times> classifier_state" where
  "classify_dimension st description scope explicit_dimension platform =
     (if truthy_opt_str explicit_dimension
      then (\<lparr> cr_dimension = (case explicit_dimension of None \<Rightarrow> [] | Some e \<Rightarrow> e),
               cr_confidence = 1, cr_method = ''explicit'', cr_matched_keywords = [],
               cr_platform = platform \<rparr>, st)
      else
        (let description_lower = lower description;
             description_words = remdups (findall_words description_lower);
             dimension_scores =
               filter (\<lambda>e. fst (snd e) > 0)
                      (map (score_dimension st description_lower platform)
                           BASE_DESIGN_DIMENSIONS)
         in (case dimension_scores of
               [] \<Rightarrow>
                 (case scope of
                    Some (c # cs) \<Rightarrow>
                      (\<lparr> cr_dimension = (case map_of SCOPE_MAPPING (c # cs) of
                                            None \<Rightarrow> ''general'' | Some d \<Rightarrow> d),
                         cr_confidence = 1 / 2, cr_method = ''scope'',
                         cr_matched_keywords = [], cr_platform = platform \<rparr>, st)
                  | _ \<Rightarrow>
                      (\<lparr> cr_dimension = ''general'', cr_confidence = 3 / 10,
                         cr_method = ''fallback'', cr_matched_keywords = [],
                         cr_platform = platform \<rparr>, st))
             | x # xs \<Rightarrow>
                 (let best = first_max x xs;
                      best_dimension = fst best;
                      max_score = fst (snd best);
                      confidence = min 1 (max_score / 3);
                      st1 = (if truthy_opt_str explicit_dimension
                             then track_performance st description_words best_dimension
                                    (case explicit_dimension of None \<Rightarrow> [] | Some e \<Rightarrow> e)
                                    platform
                             else st)
                  in (\<lparr> cr_dimension = best_dimension, cr_confidence = confidence,
                        cr_method = ''keywords'', cr_matched_keywords = snd (snd best),
                        cr_platform = platform \<rparr>, st1)))))"

section \<open>rl/core/synthetic\_preference\_generator.py\<close>

text \<open>
  The two dictionaries of a rule carry the keys the generator reads, typed as the rule
  schema gives them; \<open>None\<close> is an absent key, and the keys the generator never reads are
  listed by name only.  A dictionary is truthy when it has at least one key.
\<close>

record platform_context_dict =
  pc_platform :: "string option"
  pc_extraction_method :: "string option"
  pc_api_endpoints :: "string list option"
  pc_data_source :: "string option"
  pc_other_keys :: "string list"

record training_metadata_dict =
  tm_novelty_score :: "real option"
  tm_pattern_frequency :: "string option"
  tm_suitable_for_training :: "bool option"
  tm_constitutional_signals :: "string list option"
  tm_iteration_detected :: "bool option"
  tm_other_keys :: "string list"

definition pc_truthy :: "platform_context_dict \<Rightarrow> bool" where
  "pc_truthy pc =
     (if present (pc_platform pc) then True
      else if present (pc_extraction_method pc) then True
      else if present (pc_api_endpoints pc) then True
      else if present (pc_data_source pc) then True
      else (case pc_other_keys pc of [] \<Rightarrow> False | _ # _ \<Rightarrow> True))"

definition tm_truthy :: "training_metadata_dict \<Rightarrow> bool" where
  "tm_truthy tm =
     (if present (tm_novelty_score tm) then True
      else if present (tm_pattern_frequency tm) then True
      else if present (tm_suitable_for_training tm) then True
      else if present (tm_constitutional_signals tm) then True
      else if present (tm_iteration_detected tm) then True
      else (case tm_other_keys tm of [] \<Rightarrow> False | _ # _ \<Rightarrow> True))"

record intent_rule =
  rule_id :: string
  description :: string
  scope :: string
  abstraction_level :: string
  triggering_actions :: "string list"
  artifact_properties :: "string list option"
  confidence :: real
  platform_context :: "platform_context_dict option"
  training_metadata :: "training_metadata_dict option"
  design_dimension :: "string option"

record preference_pair =
  preferred :: intent_rule
  rejected :: intent_rule
  source :: string
  synthetic :: bool
  weight :: real
  trace_context :: "pydict option"
  dimension_group :: "string option"
  platform_group :: "string option"
  artifact_group :: "string option"

text \<open>
  The configuration of a \<open>SyntheticPreferenceGenerator\<close>; its classifier is the state
  passed to the functions that classify.
\<close>

record generator =
  confidence_threshold_high :: real
  confidence_threshold_low :: real
  min_novelty_score :: real
  require_platform_context :: bool
  synthetic_weight :: real
  group_by_dimension :: bool
  group_by_platform :: bool
  group_by_artifact :: bool

definition classify_platform :: "intent_rule \<Rightarrow> string" where
  "classify_platform rule =
     (case platform_context rule of
        None \<Rightarrow> ''unknown''
      | Some pc \<Rightarrow>
          if pc_truthy pc \<and> truthy_opt_str (pc_platform pc)
          then (case pc_platform pc of None \<Rightarrow> ''unknown'' | Some p \<Rightarrow> lower p)
          else ''unknown'')"

definition artifact_from_description :: "string \<Rightarrow> string" where
  "artifact_from_description desc_lower =
     (if str_contains ''text'' desc_lower \<or> str_contains ''typography'' desc_lower then ''text''
      else if str_contains ''vector'' desc_lower \<or> str_contains ''shape'' desc_lower
      then ''vector''
      else if str_contains ''frame'' desc_lower \<or> str_contains ''container'' desc_lower
      then ''frame''
      else if str_contains ''component'' desc_lower then ''component''
      else ''general'')"

definition classify_artifact_type :: "intent_rule \<Rightarrow> string" where
  "classify_artifact_type rule =
     (let from_desc = artifact_from_description (lower (description rule))
      in (case artifact_properties rule of
            None \<Rightarrow> from_desc
          | Some [] \<Rightarrow> from_desc
          | Some (p # ps) \<Rightarrow>
              (let props_lower = map lower (p # ps)
               in if list_ex (\<lambda>q. str_contains ''text'' q \<or> str_contains ''font'' q) props_lower
                  then ''text''
                  else if list_ex (\<lambda>q. str_contains ''vector'' q \<or> str_contains ''path'' q)
                            props_lower
                  then ''vector''
                  else if list_ex (\<lambda>q. str_contains ''frame'' q \<or> str_contains ''container'' q)
                            props_lower
                  then ''frame''
                  else if list_ex (\<lambda>q. str_contains ''component'' q) props_lower
                  then ''component''
                  else from_desc)))"

definition classify_design_dimension ::
  "classifier_state \<Rightarrow> intent_rule \<Rightarrow> string \<times> classifier_state" where
  "classify_design_dimension st rule =
     (let platform = classify_platform rule;
          res = classify_dimension st (description rule) (Some (scope rule))
                  (design_dimension rule)
                  (if platform = ''unknown'' then None else Some platform)
      in (cr_dimension (fst res), snd res))"

definition group_key_of :: "generator \<Rightarrow> string \<Rightarrow> string \<Rightarrow> string \<Rightarrow> string" where
  "group_key_of gen dimension platform artifact =
     (if group_by_dimension gen \<and> group_by_platform gen \<and> group_by_artifact gen
      then dimension @ '':'' @ platform @ '':'' @ artifact
      else if group_by_dimension gen \<and> group_by_platform gen then dimension @ '':'' @ platform
      else if group_by_dimension gen \<and> group_by_artifact gen then dimension @ '':'' @ artifact
      else if group_by_platform gen \<and> group_by_artifact gen then platform @ '':'' @ artifact
      else if group_by_dimension gen then dimension
      else if group_by_platform gen then platform
      else if group_by_artifact gen then artifact
      else ''all'')"

text \<open>\<open>groups[group_key].append(rule)\<close> on the \<open>defaultdict(list)\<close>.\<close>

fun groups_append ::
  "string \<Rightarrow> intent_rule \<Rightarrow> (string \<times> intent_rule list) list \<Rightarrow> (string \<times> intent_rule list) list"
where
  "groups_append k r [] = [(k, [r])]"
| "groups_append k r ((k', rs) # gs) =
     (if k = k' then (k', rs @ [r]) # gs else (k', rs) # groups_append k r gs)"

text \<open>The loop of \<open>_classify_rules\<close>, with the groups built so far and the classifier.\<close>

fun classify_rules_loop ::
  "generator \<Rightarrow> classifier_state \<Rightarrow> (string \<times> intent_rule list) list \<Rightarrow> intent_rule list
     \<Rightarrow> (string \<times> intent_rule list) list \<times> classifier_state" where
  "classify_rules_loop gen st groups [] = (groups, st)"
| "classify_rules_loop gen st groups (rule # rules) =
     (let dc = classify_design_dimension st rule;
          platform = classify_platform rule;
          artifact = classify_artifact_type rule;
          group_key = group_key_of gen (fst dc) platform artifact
      in classify_rules_loop gen (snd dc) (groups_append group_key rule groups) rules)"

definition classify_rules ::
  "generator \<Rightarrow> classifier_state \<Rightarrow> intent_rule list
     \<Rightarrow> (string \<times> intent_rule list) list \<times> classifier_state" where
  "classify_rules gen st rules = classify_rules_loop gen st [] rules"

definition parse_group_key ::
  "string option \<Rightarrow> string option \<times> string option \<times> string option" where
  "parse_group_key group_key =
     (case group_key of
        None \<Rightarrow> (None, None, None)
      | Some k \<Rightarrow>
          if k = [] \<or> k = ''all'' then (None, None, None)
          else (let parts = split_on CHR '':'' [] k
                in (nth_opt parts 0, nth_opt parts 1, nth_opt parts 2)))"

text \<open>
  The nested loop that ends every strategy: each preferred rule is paired with each
  rejected rule of a different \<open>rule_id\<close>, in that order, with the labels of the group.
\<close>

definition emit_pairs ::
  "intent_rule list \<Rightarrow> intent_rule list \<Rightarrow> string \<Rightarrow> real \<Rightarrow> pydict option \<Rightarrow> string option
     \<Rightarrow> preference_pair list" where
  "emit_pairs preferred_rules rejected_rules src w trace group_key =
     (let labels = parse_group_key group_key
      in concat (map (\<lambda>p. map (\<lambda>r. \<lparr> preferred = p, rejected = r, source = src,
                                        synthetic = True, weight = w, trace_context = trace,
                                        dimension_group = fst labels,
                                        platform_group = fst (snd labels),
                                        artifact_group = snd (snd labels) \<rparr>)
                                (filter (\<lambda>r. rule_id p \<noteq> rule_id r) rejected_rules))
                     preferred_rules))"

definition generate_confidence_pairs ::
  "generator \<Rightarrow> intent_rule list \<Rightarrow> pydict option \<Rightarrow> string option \<Rightarrow> preference_pair list"
where
  "generate_confidence_pairs gen rules trace group_key =
     (let high_conf_rules = filter (\<lambda>r. confidence r \<ge> confidence_threshold_high gen) rules;
          low_conf_rules = filter (\<lambda>r. confidence r \<le> confidence_threshold_low gen) rules
      in emit_pairs high_conf_rules low_conf_rules ''confidence'' (synthetic_weight gen)
           trace group_key)"

definition compute_quality_score :: "generator \<Rightarrow> intent_rule \<Rightarrow> real" where
  "compute_quality_score gen rule =
     (let s1 = (if truthy_str (rule_id rule) \<and> truthy_str (description rule)
                   \<and> truthy_str (scope rule)
                then 2 / 10 else 0);
          s2 = (if length (description rule) \<le> 150
                   \<and> length (split_ws (description rule)) \<le> 20
                then 2 / 10 else 0);
          s3 = (case platform_context rule of
                  None \<Rightarrow> 0
                | Some pc \<Rightarrow>
                    if pc_truthy pc
                    then (if truthy_opt_str (pc_platform pc)
                             \<and> truthy_opt_str (pc_extraction_method pc)
                          then 2 / 10 else 0)
                         + (if truthy_opt_list (pc_api_endpoints pc) then 1 / 10 else 0)
                    else 0);
          s4 = (case training_metadata rule of
                  None \<Rightarrow> 0
                | Some tm \<Rightarrow>
                    if tm_truthy tm
                    then (if truthy_opt_bool (tm_suitable_for_training tm) then 2 / 10 else 0)
                         + (if (case tm_novelty_score tm of None \<Rightarrow> 0 | Some n \<Rightarrow> n)
                                 \<ge> min_novelty_score gen
                            then 1 / 10 else 0)
                    else 0)
      in s1 + s2 + s3 + s4)"

definition generate_quality_pairs ::
  "generator \<Rightarrow> intent_rule list \<Rightarrow> pydict option \<Rightarrow> string option \<Rightarrow> preference_pair list"
where
  "generate_quality_pairs gen rules trace group_key =
     (let quality_rules = filter (\<lambda>r. compute_quality_score gen r \<ge> 8 / 10) rules;
          poor_quality_rules =
            filter (\<lambda>r. \<not> compute_quality_score gen r \<ge> 8 / 10
                         \<and> compute_quality_score gen r \<le> 5 / 10) rules
      in emit_pairs quality_rules poor_quality_rules ''quality'' (synthetic_weight gen)
           trace group_key)"

definition is_complete :: "intent_rule \<Rightarrow> bool" where
  "is_complete rule =
     (case platform_context rule of
        None \<Rightarrow> False
      | Some pc \<Rightarrow>
          if pc_truthy pc then present (pc_platform pc) \<and> present (pc_extraction_method pc)
          else False)"

definition generate_completeness_pairs ::
  "generator \<Rightarrow> intent_rule list \<Rightarrow> pydict option \<Rightarrow> string option \<Rightarrow> preference_pair list"
where
  "generate_completeness_pairs gen rules trace group_key =
     (let complete_rules = filter (\<lambda>r. is_complete r) rules;
          incomplete_rules = filter (\<lambda>r. \<not> is_complete r) rules
      in emit_pairs complete_rules incomplete_rules ''completeness'' (synthetic_weight gen)
           trace group_key)"

text \<open>
  The value read from a truthy \<open>training_metadata\<close> with \<open>.get(key, default)\<close>;
  \<open>None\<close> when the rule has no (or an empty) \<open>training_metadata\<close>.
\<close>

definition novelty_of :: "intent_rule \<Rightarrow> real option" where
  "novelty_of rule =
     (case training_metadata rule of
        None \<Rightarrow> None
      | Some tm \<Rightarrow>
          if tm_truthy tm
          then Some (case tm_novelty_score tm of None \<Rightarrow> 1 / 2 | Some n \<Rightarrow> n)
          else None)"

definition frequency_of :: "intent_rule \<Rightarrow> string option" where
  "frequency_of rule =
     (case training_metadata rule of
        None \<Rightarrow> None
      | Some tm \<Rightarrow>
          if tm_truthy tm
          then Some (case tm_pattern_frequency tm of None \<Rightarrow> ''uncommon'' | Some f \<Rightarrow> f)
          else None)"

definition generate_novelty_pairs ::
  "generator \<Rightarrow> intent_rule list \<Rightarrow> pydict option \<Rightarrow> string option \<Rightarrow> preference_pair list"
where
  "generate_novelty_pairs gen rules trace group_key =
     (let novel_rules =
            filter (\<lambda>r. case novelty_of r of None \<Rightarrow> False | Some n \<Rightarrow> n \<ge> 7 / 10) rules;
          duplicate_rules =
            filter (\<lambda>r. case novelty_of r of
                          None \<Rightarrow> False
                        | Some n \<Rightarrow> \<not> n \<ge> 7 / 10 \<and> n \<le> 3 / 10) rules
      in emit_pairs novel_rules duplicate_rules ''novelty'' (synthetic_weight gen)
           trace group_key)"

definition generate_frequency_pairs ::
  "generator \<Rightarrow> intent_rule list \<Rightarrow> pydict option \<Rightarrow> string option \<Rightarrow> preference_pair list"
where
  "generate_frequency_pairs gen rules trace group_key =
     (let common_rules = filter (\<lambda>r. frequency_of r = Some ''common'') rules;
          rare_rules = filter (\<lambda>r. frequency_of r = Some ''rare'') rules
      in emit_pairs common_rules rare_rules ''frequency'' (synthetic_weight gen)
           trace group_key)"

definition iteration_keywords :: "string list" where
  "iteration_keywords =
     [''iterative'', ''refine'', ''adjust'', ''return'', ''revisit'',
      ''again'', ''further'', ''continue'', ''polish'', ''tweak'']"

definition semantic_keywords :: "string list" where
  "semantic_keywords =
     [''for'', ''to improve'', ''to enhance'', ''for readability'', ''for hierarchy'',
      ''alignment'', ''consistency'', ''balance'', ''emphasis'', ''clarity'']"

definition compute_constitutional_score :: "intent_rule \<Rightarrow> real" where
  "compute_constitutional_score rule =
     (let desc_lower = lower (description rule);
          s1 = (if list_ex (\<lambda>kw. str_contains kw desc_lower) iteration_keywords
                then 25 / 100 else 0);
          s2 = (if list_ex (\<lambda>kw. str_contains kw desc_lower) semantic_keywords
                then 25 / 100 else 0);
          s3 = (case platform_context rule of
                  None \<Rightarrow> 0
                | Some pc \<Rightarrow>
                    if pc_truthy pc
                    then (if truthy_opt_str (pc_platform pc)
                             \<and> truthy_opt_str (pc_extraction_method pc)
                          then 15 / 100 else 0)
                         + (if truthy_opt_list (pc_api_endpoints pc)
                               \<or> truthy_opt_str (pc_data_source pc)
                            then 1 / 10 else 0)
                    else 0);
          s4 = (case training_metadata rule of
                  None \<Rightarrow> 0
                | Some tm \<Rightarrow>
                    if tm_truthy tm
                    then (case tm_constitutional_signals tm of
                            None \<Rightarrow> 0
                          | Some [] \<Rightarrow> 0
                          | Some (x # xs) \<Rightarrow> (15 / 100) * real (min (length (x # xs)) 2))
                         + (if truthy_opt_bool (tm_iteration_detected tm) then 15 / 100 else 0)
                    else 0)
      in min 1 (s1 + s2 + s3 + s4))"

definition generate_constitutional_pairs ::
  "generator \<Rightarrow> intent_rule list \<Rightarrow> pydict option \<Rightarrow> string option \<Rightarrow> preference_pair list"
where
  "generate_constitutional_pairs gen rules trace group_key =
     (let constitutional_rules =
            filter (\<lambda>r. compute_constitutional_score r \<ge> 7 / 10) rules;
          weak_rules =
            filter (\<lambda>r. \<not> compute_constitutional_score r \<ge> 7 / 10
                         \<and> compute_constitutional_score r \<le> 4 / 10) rules
      in emit_pairs constitutional_rules weak_rules ''constitutional''
           (synthetic_weight gen * (12 / 10)) trace group_key)"

text \<open>The loop of \<open>_deduplicate_pairs\<close>, with the set of keys seen so far.\<close>

fun deduplicate_loop ::
  "(string \<times> string) set \<Rightarrow> preference_pair list \<Rightarrow> preference_pair list" where
  "deduplicate_loop seen [] = []"
| "deduplicate_loop seen (pair # pairs) =
     (let key = (rule_id (preferred pair), rule_id (rejected pair))
      in if key \<in> seen then deduplicate_loop seen pairs
         else pair # deduplicate_loop (insert key seen) pairs)"

definition deduplicate_pairs :: "preference_pair list \<Rightarrow> preference_pair list" where
  "deduplicate_pairs pairs = deduplicate_loop {} pairs"

definition default_strategies :: "string list" where
  "default_strategies =
     [''confidence'', ''quality'', ''completeness'', ''novelty'', ''frequency'',
      ''constitutional'']"

text \<open>The pairs of one group: the enabled strategies, in the fixed order of the source.\<close>

definition group_pairs ::
  "generator \<Rightarrow> string list \<Rightarrow> pydict option \<Rightarrow> string \<times> intent_rule list
     \<Rightarrow> preference_pair list" where
  "group_pairs gen strategies trace grp =
     (let group_key = Some (fst grp); group_rules = snd grp
      in if length group_rules < 2 then []
         else (if ''confidence'' \<in> set strategies
               then generate_confidence_pairs gen group_rules trace group_key else [])
            @ (if ''quality'' \<in> set strategies
               then generate_quality_pairs gen group_rules trace group_key else [])
            @ (if ''completeness'' \<in> set strategies
               then generate_completeness_pairs gen group_rules trace group_key else [])
            @ (if ''novelty'' \<in> set strategies
               then generate_novelty_pairs gen group_rules trace group_key else [])
            @ (if ''frequency'' \<in> set strategies
               then generate_frequency_pairs gen group_rules trace group_key else [])
            @ (if ''constitutional'' \<in> set strategies
               then generate_constitutional_pairs gen group_rules trace group_key else []))"

text \<open>\<open>all_pairs\<close> of \<open>generate_preferences\<close> before deduplication, in generation order.\<close>

definition all_pairs ::
  "generator \<Rightarrow> string list \<Rightarrow> pydict option \<Rightarrow> (string \<times> intent_rule list) list
     \<Rightarrow> preference_pair list" where
  "all_pairs gen strategies trace classified_rules =
     concat (map (group_pairs gen strategies trace) classified_rules)"

definition generate_preferences ::
  "generator \<Rightarrow> classifier_state \<Rightarrow> intent_rule list \<Rightarrow> pydict option \<Rightarrow> string list option
     \<Rightarrow> preference_pair list \<times> classifier_state" where
  "generate_preferences gen st rules trace strategies =
     (let strats = (case strategies of None \<Rightarrow> default_strategies | Some s \<Rightarrow> s);
          classified = classify_rules gen st rules
      in (deduplicate_pairs (all_pairs gen strats trace (fst classified)), snd classified))"

section \<open>rl/utils/validators/schema\_validator.py\<close>

text \<open>The messages appended to \<open>errors\<close>, with the values they print.\<close>

datatype validation_error =
    MissingRequiredField string
  | InvalidConfidence pyval
  | DescriptionTooLong nat
  | InvalidScope pyval
  | InvalidAbstractionLevel pyval
  | PlatformContextNotDict
  | PlatformContextMissing string

definition required_fields :: "string list" where
  "required_fields =
     [''rule_id'', ''description'', ''scope'', ''abstraction_level'',
      ''triggering_actions'', ''confidence'', ''platform_context'']"

definition valid_scopes :: "string list" where
  "valid_scopes = [''artifact_property'', ''structural'', ''relational'', ''compositional'']"

definition valid_levels :: "string list" where
  "valid_levels = [''specific'', ''intermediate'', ''general'']"

text \<open>
  \<open>not isinstance(conf, (int, float)) or conf < 0.0 or conf > 1.0\<close>; a Python \<open>bool\<close> is
  an \<open>int\<close> (0 or 1).
\<close>

fun confidence_invalid :: "pyval \<Rightarrow> bool" where
  "confidence_invalid (PInt i) = (i < 0 \<or> i > 1)"
| "confidence_invalid (PFloat x) = (x < 0 \<or> x > 1)"
| "confidence_invalid (PBool b) = False"
| "confidence_invalid v = True"

text \<open>\<open>value not in names\<close> for a list of strings: only an equal string is in it.\<close>

fun not_in_names :: "pyval \<Rightarrow> string list \<Rightarrow> bool" where
  "not_in_names (PStr s) names = (if s \<in> set names then False else True)"
| "not_in_names v names = True"

definition check_required :: "pydict \<Rightarrow> validation_error list" where
  "check_required rule =
     map MissingRequiredField
         (filter (\<lambda>f. case map_of rule f of None \<Rightarrow> True | Some _ \<Rightarrow> False) required_fields)"

definition check_confidence :: "pydict \<Rightarrow> validation_error list" where
  "check_confidence rule =
     (case map_of rule ''confidence'' of
        None \<Rightarrow> []
      | Some conf \<Rightarrow> if confidence_invalid conf then [InvalidConfidence conf] else [])"

text \<open>\<open>desc.split()\<close> raises \<open>AttributeError\<close> when the description is not a string.\<close>

definition check_description :: "pydict \<Rightarrow> py_error + validation_error list" where
  "check_description rule =
     (case map_of rule ''description'' of
        None \<Rightarrow> Inr []
      | Some (PStr desc) \<Rightarrow>
          (let words = length (split_ws desc)
           in if words > 20 then Inr [DescriptionTooLong words] else Inr [])
      | Some _ \<Rightarrow> Inl AttributeError)"

definition check_scope :: "pydict \<Rightarrow> validation_error list" where
  "check_scope rule =
     (case map_of rule ''scope'' of
        None \<Rightarrow> []
      | Some v \<Rightarrow> if not_in_names v valid_scopes then [InvalidScope v] else [])"

definition check_abstraction_level :: "pydict \<Rightarrow> validation_error list" where
  "check_abstraction_level rule =
     (case map_of rule ''abstraction_level'' of
        None \<Rightarrow> []
      | Some v \<Rightarrow> if not_in_names v valid_levels then [InvalidAbstractionLevel v] else [])"

definition check_platform_context :: "pydict \<Rightarrow> validation_error list" where
  "check_platform_context rule =
     (case map_of rule ''platform_context'' of
        None \<Rightarrow> []
      | Some (PDict pc) \<Rightarrow>
          (case map_of pc ''platform'' of
             None \<Rightarrow> [PlatformContextMissing ''platform''] | Some _ \<Rightarrow> [])
          @ (case map_of pc ''extraction_method'' of
               None \<Rightarrow> [PlatformContextMissing ''extraction_method''] | Some _ \<Rightarrow> [])
      | Some _ \<Rightarrow> [PlatformContextNotDict])"

text \<open>
  \<open>validate_rule\<close> runs the checks in the order of the source and returns
  \<open>(len(errors) == 0, errors)\<close>, or the exception of the description check.
\<close>

definition validate_rule :: "pydict \<Rightarrow> py_error + (bool \<times> validation_error list)" where
  "validate_rule rule =
     (case check_description rule of
        Inl e \<Rightarrow> Inl e
      | Inr description_errors \<Rightarrow>
          (let errors = check_required rule @ check_confidence rule @ description_errors
                        @ check_scope rule @ check_abstraction_level rule
                        @ check_platform_context rule
           in Inr (length errors = 0, errors)))"

section \<open>Notions of the specification and example inputs\<close>

text \<open>The deduplication key of a pair and its (preferred, rejected, source) triple.\<close>

definition pair_key :: "preference_pair \<Rightarrow> string \<times> string" where
  "pair_key p = (rule_id (preferred p), rule_id (rejected p))"

definition pair_triple :: "preference_pair \<Rightarrow> string \<times> string \<times> string" where
  "pair_triple p = (rule_id (preferred p), rule_id (rejected p), source p)"

text \<open>
  The quality score as the specification words it: it differs from
  \<open>compute_quality_score\<close> only in the fourth summand, where the specification also
  counts a data-source field.
\<close>

definition spec_quality_score :: "generator \<Rightarrow> intent_rule \<Rightarrow> real" where
  "spec_quality_score gen rule =
     (if truthy_str (rule_id rule) \<and> truthy_str (description rule) \<and> truthy_str (scope rule)
      then 2 / 10 else 0)
     + (if length (description rule) \<le> 150 \<and> length (split_ws (description rule)) \<le> 20
        then 2 / 10 else 0)
     + (case platform_context rule of
          None \<Rightarrow> 0
        | Some pc \<Rightarrow>
            (if truthy_opt_str (pc_platform pc) \<and> truthy_opt_str (pc_extraction_method pc)
             then 2 / 10 else 0)
            + (if truthy_opt_list (pc_api_endpoints pc) \<or> truthy_opt_str (pc_data_source pc)
               then 1 / 10 else 0))
     + (case training_metadata rule of
          None \<Rightarrow> 0
        | Some tm \<Rightarrow>
            (if truthy_opt_bool (tm_suitable_for_training tm) then 2 / 10 else 0)
            + (if tm_truthy tm
                  \<and> (case tm_novelty_score tm of None \<Rightarrow> 0 | Some n \<Rightarrow> n)
                      \<ge> min_novelty_score gen
               then 1 / 10 else 0))"

text \<open>The default configuration of the generator and a classifier that has learned nothing.\<close>

definition example_generator :: generator where
  "example_generator =
     \<lparr> confidence_threshold_high = 7 / 10, confidence_threshold_low = 4 / 10,
       min_novelty_score = 3 / 10, require_platform_context = True,
       synthetic_weight = 3 / 10, group_by_dimension = True, group_by_platform = True,
       group_by_artifact = True \<rparr>"

definition empty_classifier :: classifier_state where
  "empty_classifier = \<lparr> platform_keywords = [], keyword_performance = [] \<rparr>"

definition example_rule_strong :: intent_rule where
  "example_rule_strong =
     \<lparr> rule_id = ''r1'', description = ''Refine spacing for better readability'',
       scope = ''artifact_property'', abstraction_level = ''specific'',
       triggering_actions = [''resize''], artifact_properties = None,
       confidence = 85 / 100,
       platform_context = Some \<lparr> pc_platform = Some ''Figma'',
                                  pc_extraction_method = Some ''plugin_api'',
                                  pc_api_endpoints = Some [''nodes''],
                                  pc_data_source = None, pc_other_keys = [] \<rparr>,
       training_metadata = Some \<lparr> tm_novelty_score = Some (9 / 10),
                                   tm_pattern_frequency = Some ''common'',
                                   tm_suitable_for_training = Some True,
                                   tm_constitutional_signals = Some [''iteration''],
                                   tm_iteration_detected = Some True,
                                   tm_other_keys = [] \<rparr>,
       design_dimension = None \<rparr>"

definition example_rule_weak :: intent_rule where
  "example_rule_weak =
     \<lparr> rule_id = ''r2'', description = ''Increase spacing'',
       scope = ''structural'', abstraction_level = ''general'',
       triggering_actions = [''resize''], artifact_properties = None,
       confidence = 35 / 100,
       platform_context = Some \<lparr> pc_platform = Some ''figma'',
                                  pc_extraction_method = None,
                                  pc_api_endpoints = None,
                                  pc_data_source = None, pc_other_keys = [] \<rparr>,
       training_metadata = Some \<lparr> tm_novelty_score = Some (2 / 10),
                                   tm_pattern_frequency = Some ''rare'',
                                   tm_suitable_for_training = None,
                                   tm_constitutional_signals = None,
                                   tm_iteration_detected = None,
                                   tm_other_keys = [] \<rparr>,
       design_dimension = None \<rparr>"

text \<open>A rule whose platform context names a data source and no API endpoint.\<close>

definition example_rule_data_source :: intent_rule where
  "example_rule_data_source =
     \<lparr> rule_id = ''r3'', description = ''Align cards to the grid'',
       scope = ''structural'', abstraction_level = ''general'',
       triggering_actions = [''move''], artifact_properties = None,
       confidence = 6 / 10,
       platform_context = Some \<lparr> pc_platform = Some ''figma'',
                                  pc_extraction_method = Some ''plugin_api'',
                                  pc_api_endpoints = None,
                                  pc_data_source = Some ''rest_api'', pc_other_keys = [] \<rparr>,
       training_metadata = None,
       design_dimension = None \<rparr>"

text \<open>The pair of the two example rules in their group, by strategy and weight.\<close>

definition example_pair :: "string \<Rightarrow> real \<Rightarrow> preference_pair" where
  "example_pair src w =
     \<lparr> preferred = example_rule_strong, rejected = example_rule_weak, source = src,
       synthetic = True, weight = w, trace_context = None,
       dimension_group = Some ''spacing'', platform_group = Some ''figma'',
       artifact_group = Some ''general'' \<rparr>"

text \<open>A rule record with the six fields of the specification, without and with a platform context.\<close>

definition example_rule_dict :: pydict where
  "example_rule_dict =
     [(''rule_id'', PStr ''r1''),
      (''description'', PStr ''Increase spacing for better readability''),
      (''scope'', PStr ''artifact_property''),
      (''abstraction_level'', PStr ''specific''),
      (''triggering_actions'', PList [PStr ''resize'']),
      (''confidence'', PFloat (85 / 100))]"

definition example_rule_dict_with_context :: pydict where
  "example_rule_dict_with_context =
     example_rule_dict
     @ [(''platform_context'',
         PDict [(''platform'', PStr ''figma''), (''extraction_method'', PStr ''plugin_api'')])]"

text \<open>A classifier that has learned one keyword for figma layouts, with its counters.\<close>

definition learned_classifier :: classifier_state where
  "learned_classifier =
     \<lparr> platform_keywords = [(''figma'', [(''layout'', [(''cards'', 8 / 10)])])],
       keyword_performance =
         [(''figma'', [(''layout'', [(''cards'', \<lparr> correct = 4, total = 5 \<rparr>)])])] \<rparr>"

text \<open>
  What every generated pair satisfies: two different rules, the synthetic flag, and the
  weight of its strategy.
\<close>

definition pair_ok :: "generator \<Rightarrow> preference_pair \<Rightarrow> bool" where
  "pair_ok gen p =
     (rule_id (preferred p) \<noteq> rule_id (rejected p) \<and> synthetic p
      \<and> ((source p \<in> {''confidence'', ''quality'', ''completeness'', ''novelty'', ''frequency''}
           \<and> weight p = synthetic_weight gen)
          \<or> (source p = ''constitutional'' \<and> weight p = synthetic_weight gen * (12 / 10))))"



section \<open>Properties of the reward model and the environment\<close>

text \<open>
  C1. For every user response, change list, duration and configuration of weights, the
  value of the reward returned by \<open>_compute_reward\<close> is the sum of the values of its
  component map, whose keys are preference, change\_magnitude and temporal; the total is
  the plain sum of the three weighted components and is not clamped.
\<close>

theorem reward_value_sums_components:
  "reward_value (compute_reward env act resp changes duration_ms)
     = sum_list (map snd (reward_components (compute_reward env act resp changes duration_ms)))
   \<and> map fst (reward_components (compute_reward env act resp changes duration_ms))
     = [''preference'', ''change_magnitude'', ''temporal'']
   \<and> reward_value (compute_reward env act resp changes duration_ms)
     = preference_reward resp * preference_weight env
       + change_reward changes * change_weight env
       + temporal_reward duration_ms * temporal_weight env"
  by (simp add: compute_reward_def)

text \<open>
  C2. The unweighted temporal reward is 0 when the duration is unknown,
  \<open>1 - (d - 1000) / 4000\<close> for a duration \<open>d\<close> between 1000 and 5000 ms (so it does not
  increase on that window, is 1 at 1000 and 0 at 5000), 0.5 below 1000 ms and
  \<open>max 0 (1 - (d - 5000) / 10000)\<close> above 5000 ms; the temporal entry of the component
  map is this value times \<open>temporal_weight\<close>.
\<close>

theorem temporal_component_piecewise:
  "temporal_reward None = 0
   \<and> (1000 \<le> d \<and> d \<le> 5000 \<longrightarrow> temporal_reward (Some d) = 1 - (d - 1000) / 4000)
   \<and> (1000 \<le> d \<and> d \<le> d' \<and> d' \<le> 5000
        \<longrightarrow> temporal_reward (Some d') \<le> temporal_reward (Some d))
   \<and> temporal_reward (Some 1000) = 1
   \<and> temporal_reward (Some 5000) = 0
   \<and> (d < 1000 \<longrightarrow> temporal_reward (Some d) = 1 / 2)
   \<and> (d > 5000 \<longrightarrow> temporal_reward (Some d) = max 0 (1 - (d - 5000) / 10000))
   \<and> map_of (reward_components (compute_reward env act resp changes dur)) ''temporal''
       = Some (temporal_reward dur * temporal_weight env)"
  by (simp add: temporal_reward_def compute_reward_def)

theorem temporal_component_piecewise_witness:
  "temporal_reward (Some 2000) = 3 / 4
   \<and> temporal_reward (Some 3000) \<le> temporal_reward (Some 2000)
   \<and> temporal_reward (Some 500) = 1 / 2
   \<and> temporal_reward (Some 9000) = 6 / 10"
  using temporal_component_piecewise [of 2000 3000]
        temporal_component_piecewise [of 500]
        temporal_component_piecewise [of 9000]
  by simp

text \<open>
  C8. On an environment that was constructed and never reset, \<open>step\<close> fails with the
  invalid-state error and leaves the environment as it was; on an environment that was
  reset with an initial observation, \<open>step\<close> returns a result, and the environment still
  holds an observation afterwards, so later steps do not raise the error either.
\<close>

theorem step_requires_reset:
  "step (init_environment pw cw tw ms) act resp changes duration_ms next_observation
     = (Inl (ValueError ''Environment not reset. Call reset() first.''),
        init_environment pw cw tw ms)
   \<and> (\<exists>res. fst (step (snd (reset env obs)) act resp changes duration_ms next_observation)
              = Inr res)
   \<and> current_observation
         (snd (step (snd (reset env obs)) act resp changes duration_ms next_observation))
       \<noteq> None"
  by (simp add: step_def init_environment_def reset_def Let_def split: option.split)

section \<open>Properties of the classifier\<close>

lemma classify_dimension_state:
  "snd (classify_dimension st d sc e p) = st"
  by (simp add: classify_dimension_def Let_def split: list.split option.split)

lemma classify_dimension_explicit:
  "truthy_opt_str e \<Longrightarrow> cr_method (fst (classify_dimension st d sc e p)) = ''explicit''"
  by (simp add: classify_dimension_def)

lemma classify_design_dimension_state:
  "snd (classify_design_dimension st rule) = st"
  by (simp add: classify_design_dimension_def Let_def classify_dimension_state)

lemma classify_rules_loop_state:
  "snd (classify_rules_loop gen st groups rules) = st"
  by (induction rules arbitrary: groups) (simp_all add: Let_def classify_design_dimension_state)

lemma classify_rules_state: "snd (classify_rules gen st rules) = st"
  by (simp add: classify_rules_def classify_rules_loop_state)

lemma track_performance_changes_counters:
  "keyword_performance
     (track_performance \<lparr> platform_keywords = [], keyword_performance = [] \<rparr>
        [''grid''] ''layout'' ''layout'' (Some ''figma''))
   = [(''figma'', [(''layout'', [(''grid'', \<lparr> correct = 1, total = 1 \<rparr>)])])]"
  by (simp add: track_performance_def track_word_def)

lemma learned_classifier_keywords:
  "cr_method (fst (classify_dimension learned_classifier ''Arrange cards on the grid''
                     (Some ''structural'') None (Some ''figma''))) = ''keywords''
   \<and> cr_dimension (fst (classify_dimension learned_classifier ''Arrange cards on the grid''
                          (Some ''structural'') None (Some ''figma''))) = ''layout''
   \<and> cr_confidence (fst (classify_dimension learned_classifier ''Arrange cards on the grid''
                           (Some ''structural'') None (Some ''figma''))) = 6 / 10"
  by code_simp

text \<open>
  C10. \<open>classify_dimension\<close> returns the classifier as it received it, for every
  description, scope, explicit dimension and platform: \<open>platform_keywords\<close> and
  \<open>keyword_performance\<close> are unchanged.  A truthy explicit dimension always returns by the
  explicit method, so a result of the keyword method, the only place that calls
  \<open>_track_performance\<close>, is reached only without one, and the tracking branch never runs
  (\<open>track_performance_changes_counters\<close> shows that it would change the counters).
\<close>

theorem classify_dimension_frame:
  "snd (classify_dimension st d sc e p) = st
   \<and> platform_keywords (snd (classify_dimension st d sc e p)) = platform_keywords st
   \<and> keyword_performance (snd (classify_dimension st d sc e p)) = keyword_performance st
   \<and> (truthy_opt_str e \<longrightarrow> cr_method (fst (classify_dimension st d sc e p)) = ''explicit'')
   \<and> (cr_method (fst (classify_dimension st d sc e p)) = ''keywords''
        \<longrightarrow> \<not> truthy_opt_str e)"
  by (auto simp: classify_dimension_state classify_dimension_explicit)

theorem classify_dimension_frame_witness:
  "truthy_opt_str (Some ''color'')
   \<and> cr_method (fst (classify_dimension learned_classifier ''Arrange cards on the grid''
                       (Some ''structural'') (Some ''color'') (Some ''figma''))) = ''explicit''
   \<and> cr_method (fst (classify_dimension learned_classifier ''Arrange cards on the grid''
                       (Some ''structural'') None (Some ''figma''))) = ''keywords''
   \<and> \<not> truthy_opt_str None
   \<and> snd (classify_dimension learned_classifier ''Arrange cards on the grid''
            (Some ''structural'') None (Some ''figma'')) = learned_classifier
   \<and> snd (classify_dimension learned_classifier ''Arrange cards on the grid''
            (Some ''structural'') (Some ''color'') (Some ''figma'')) = learned_classifier"
  using classify_dimension_frame [of learned_classifier "''Arrange cards on the grid''"
          "Some ''structural''" "Some ''color''" "Some ''figma''"]
        classify_dimension_frame [of learned_classifier "''Arrange cards on the grid''"
          "Some ''structural''" None "Some ''figma''"]
        learned_classifier_keywords
  by (simp add: truthy_opt_str_def truthy_str_def)

section \<open>Properties of the synthetic preference generator\<close>

lemma dedup_subseq: "subseq (deduplicate_loop seen ps) ps"
  by (induction ps arbitrary: seen) (auto simp: Let_def)

lemma dedup_set_subset: "set (deduplicate_loop seen ps) \<subseteq> set ps"
  by (induction ps arbitrary: seen) (auto simp: Let_def)

lemma dedup_keys: "pair_key ` set (deduplicate_loop seen ps) = pair_key ` set ps - seen"
  by (induction ps arbitrary: seen) (auto simp: Let_def pair_key_def)

lemma dedup_distinct: "distinct (map pair_key (deduplicate_loop seen ps))"
proof (induction ps arbitrary: seen)
  case Nil
  show ?case by simp
next
  case (Cons p ps)
  have "pair_key p \<notin> pair_key ` set (deduplicate_loop (insert (pair_key p) seen) ps)"
    by (simp add: dedup_keys)
  with Cons show ?case by (auto simp: Let_def pair_key_def)
qed

lemma dedup_first:
  "p \<in> set (deduplicate_loop seen ps) \<Longrightarrow> find (\<lambda>q. pair_key q = pair_key p) ps = Some p"
proof (induction ps arbitrary: seen)
  case Nil
  then show ?case by simp
next
  case (Cons a ps)
  show ?case
  proof (cases "pair_key a \<in> seen")
    case True
    then have "p \<in> set (deduplicate_loop seen ps)"
      using Cons.prems by (simp add: Let_def pair_key_def)
    moreover from this have "pair_key p \<notin> seen"
      using dedup_keys [of seen ps] by blast
    ultimately show ?thesis using True Cons.IH by auto
  next
    case False
    then have "p = a \<or> p \<in> set (deduplicate_loop (insert (pair_key a) seen) ps)"
      using Cons.prems by (simp add: Let_def pair_key_def)
    then show ?thesis
    proof
      assume "p = a" then show ?thesis by simp
    next
      assume h: "p \<in> set (deduplicate_loop (insert (pair_key a) seen) ps)"
      then have "pair_key p \<noteq> pair_key a"
        using dedup_keys [of "insert (pair_key a) seen" ps] by blast
      then show ?thesis using Cons.IH [OF h] by auto
    qed
  qed
qed

lemma emit_pairs_props:
  "p \<in> set (emit_pairs ps rs src w tc gk) \<Longrightarrow>
     rule_id (preferred p) \<noteq> rule_id (rejected p) \<and> source p = src \<and> weight p = w
     \<and> synthetic p"
  by (auto simp: emit_pairs_def Let_def)

lemma group_pairs_ok:
  assumes "p \<in> set (group_pairs gen strats tc grp)"
  shows "pair_ok gen p"
proof -
  from assms consider
      "p \<in> set (generate_confidence_pairs gen (snd grp) tc (Some (fst grp)))"
    | "p \<in> set (generate_quality_pairs gen (snd grp) tc (Some (fst grp)))"
    | "p \<in> set (generate_completeness_pairs gen (snd grp) tc (Some (fst grp)))"
    | "p \<in> set (generate_novelty_pairs gen (snd grp) tc (Some (fst grp)))"
    | "p \<in> set (generate_frequency_pairs gen (snd grp) tc (Some (fst grp)))"
    | "p \<in> set (generate_constitutional_pairs gen (snd grp) tc (Some (fst grp)))"
    by (auto simp: group_pairs_def Let_def split: if_splits)
  then show ?thesis
  proof cases
    case 1
    then show ?thesis
      unfolding generate_confidence_pairs_def Let_def pair_ok_def
      using emit_pairs_props by blast
  next
    case 2
    then show ?thesis
      unfolding generate_quality_pairs_def Let_def pair_ok_def
      using emit_pairs_props by blast
  next
    case 3
    then show ?thesis
      unfolding generate_completeness_pairs_def Let_def pair_ok_def
      using emit_pairs_props by blast
  next
    case 4
    then show ?thesis
      unfolding generate_novelty_pairs_def Let_def pair_ok_def
      using emit_pairs_props by blast
  next
    case 5
    then show ?thesis
      unfolding generate_frequency_pairs_def Let_def pair_ok_def
      using emit_pairs_props by blast
  next
    case 6
    then show ?thesis
      unfolding generate_constitutional_pairs_def Let_def pair_ok_def
      using emit_pairs_props by blast
  qed
qed

lemma all_pairs_ok: "p \<in> set (all_pairs gen strats tc groups) \<Longrightarrow> pair_ok gen p"
  by (auto simp: all_pairs_def dest: group_pairs_ok)

lemma generate_preferences_ok:
  "p \<in> set (fst (generate_preferences gen st rules tc strategies)) \<Longrightarrow> pair_ok gen p"
  using dedup_set_subset all_pairs_ok
  by (fastforce simp: generate_preferences_def Let_def deduplicate_pairs_def)

lemma example_classified:
  "fst (classify_rules example_generator empty_classifier
          [example_rule_strong, example_rule_weak])
   = [(''spacing:figma:general'', [example_rule_strong, example_rule_weak])]"
  by code_simp

lemma example_all_pairs:
  "all_pairs example_generator default_strategies None
     [(''spacing:figma:general'', [example_rule_strong, example_rule_weak])]
   = [example_pair ''confidence'' (3 / 10), example_pair ''quality'' (3 / 10),
      example_pair ''completeness'' (3 / 10), example_pair ''novelty'' (3 / 10),
      example_pair ''frequency'' (3 / 10), example_pair ''constitutional'' (9 / 25)]"
  by code_simp

lemma example_output:
  "fst (generate_preferences example_generator empty_classifier
          [example_rule_strong, example_rule_weak] None None)
   = [example_pair ''confidence'' (3 / 10)]"
  by code_simp

lemma example_heavy_output:
  "fst (generate_preferences (example_generator\<lparr> synthetic_weight := 9 / 10 \<rparr>)
          empty_classifier [example_rule_strong, example_rule_weak] None
          (Some [''constitutional'']))
   = [example_pair ''constitutional'' (27 / 25)]"
  by code_simp

lemma example_generator_weight: "synthetic_weight example_generator = 3 / 10"
  by (simp add: example_generator_def)

lemma example_pair_fields:
  "rule_id (preferred (example_pair src w)) = ''r1''"
  "rule_id (rejected (example_pair src w)) = ''r2''"
  "source (example_pair src w) = src"
  "weight (example_pair src w) = w"
  "synthetic (example_pair src w)"
  by (simp_all add: example_pair_def example_rule_strong_def example_rule_weak_def)

text \<open>
  C3. For every rule list, trace context, strategy list, configuration and classifier, no
  pair returned by \<open>generate_preferences\<close> has the same \<open>rule_id\<close> on its preferred and its
  rejected rule.
\<close>

theorem no_self_pair:
  "\<forall>p \<in> set (fst (generate_preferences gen st rules tc strategies)).
     rule_id (preferred p) \<noteq> rule_id (rejected p)"
  using generate_preferences_ok by (auto simp: pair_ok_def)

theorem no_self_pair_witness:
  "fst (generate_preferences example_generator empty_classifier
          [example_rule_strong, example_rule_weak] None None)
     = [example_pair ''confidence'' (3 / 10)]
   \<and> rule_id (preferred (example_pair ''confidence'' (3 / 10)))
       \<noteq> rule_id (rejected (example_pair ''confidence'' (3 / 10)))"
  using no_self_pair [of example_generator empty_classifier
                         "[example_rule_strong, example_rule_weak]" None None]
  by (simp add: example_output)

text \<open>
  C4. In the output of \<open>generate_preferences\<close> every key (preferred \<open>rule_id\<close>, rejected
  \<open>rule_id\<close>) occurs at most once; the output is a subsequence of the pairs in generation
  order (groups in order, strategies in order within a group) that keeps every key, and
  each returned pair is the first generated pair with its key, so its source tag is the
  one of the first strategy that produced the key.
\<close>

theorem deduplicated_first_wins:
  "distinct (map pair_key (fst (generate_preferences gen st rules tc strategies)))
   \<and> subseq (fst (generate_preferences gen st rules tc strategies))
        (all_pairs gen (case strategies of None \<Rightarrow> default_strategies | Some s \<Rightarrow> s) tc
           (fst (classify_rules gen st rules)))
   \<and> pair_key ` set (fst (generate_preferences gen st rules tc strategies))
       = pair_key ` set (all_pairs gen
           (case strategies of None \<Rightarrow> default_strategies | Some s \<Rightarrow> s) tc
           (fst (classify_rules gen st rules)))
   \<and> (\<forall>p \<in> set (fst (generate_preferences gen st rules tc strategies)).
         find (\<lambda>q. pair_key q = pair_key p)
           (all_pairs gen (case strategies of None \<Rightarrow> default_strategies | Some s \<Rightarrow> s) tc
              (fst (classify_rules gen st rules)))
         = Some p)"
  by (simp add: generate_preferences_def Let_def deduplicate_pairs_def dedup_distinct
        dedup_subseq dedup_keys dedup_first)

theorem deduplicated_first_wins_witness:
  "map pair_triple
     (all_pairs example_generator default_strategies None
        (fst (classify_rules example_generator empty_classifier
                [example_rule_strong, example_rule_weak])))
   = [(''r1'', ''r2'', ''confidence''), (''r1'', ''r2'', ''quality''),
      (''r1'', ''r2'', ''completeness''), (''r1'', ''r2'', ''novelty''),
      (''r1'', ''r2'', ''frequency''), (''r1'', ''r2'', ''constitutional'')]
   \<and> map pair_triple
       (fst (generate_preferences example_generator empty_classifier
               [example_rule_strong, example_rule_weak] None None))
     = [(''r1'', ''r2'', ''confidence'')]
   \<and> find (\<lambda>q. pair_key q = pair_key (example_pair ''confidence'' (3 / 10)))
        (all_pairs example_generator default_strategies None
           (fst (classify_rules example_generator empty_classifier
                   [example_rule_strong, example_rule_weak])))
     = Some (example_pair ''confidence'' (3 / 10))"
  using deduplicated_first_wins [of example_generator empty_classifier
                         "[example_rule_strong, example_rule_weak]" None None]
  by (simp add: example_output example_classified example_all_pairs pair_triple_def
        example_pair_fields)

text \<open>
  C5 as stated fails: the weight is not kept inside the unit interval.  With
  \<open>synthetic_weight = 0.9\<close> the constitutional pair of the two example rules has weight
  1.08.
\<close>

theorem weight_unit_interval_counterexample:
  "\<not> (\<forall>p \<in> set (fst (generate_preferences (example_generator\<lparr> synthetic_weight := 9 / 10 \<rparr>)
                          empty_classifier [example_rule_strong, example_rule_weak] None
                          (Some [''constitutional'']))).
         synthetic p \<and> 0 \<le> weight p \<and> weight p \<le> 1)"
  by (simp add: example_heavy_output example_pair_fields)

text \<open>
  C5, amended. Every pair returned by \<open>generate_preferences\<close> is synthetic and comes from
  one of the six strategies; a pair of the confidence, quality, completeness, novelty or
  frequency strategy has weight \<open>synthetic_weight\<close>, a constitutional pair has weight
  \<open>synthetic_weight * 1.2\<close>; the weight lies in the unit interval whenever
  \<open>0 \<le> synthetic_weight \<le> 5/6\<close>.
\<close>

theorem pair_weights:
  "\<forall>p \<in> set (fst (generate_preferences gen st rules tc strategies)).
     synthetic p
     \<and> source p \<in> set default_strategies
     \<and> (source p \<in> {''confidence'', ''quality'', ''completeness'', ''novelty'', ''frequency''}
          \<longrightarrow> weight p = synthetic_weight gen)
     \<and> (source p = ''constitutional'' \<longrightarrow> weight p = synthetic_weight gen * (12 / 10))
     \<and> (0 \<le> synthetic_weight gen \<and> synthetic_weight gen \<le> 5 / 6
          \<longrightarrow> 0 \<le> weight p \<and> weight p \<le> 1)"
proof
  fix p
  assume "p \<in> set (fst (generate_preferences gen st rules tc strategies))"
  then have ok: "pair_ok gen p" by (rule generate_preferences_ok)
  then show "synthetic p
     \<and> source p \<in> set default_strategies
     \<and> (source p \<in> {''confidence'', ''quality'', ''completeness'', ''novelty'', ''frequency''}
          \<longrightarrow> weight p = synthetic_weight gen)
     \<and> (source p = ''constitutional'' \<longrightarrow> weight p = synthetic_weight gen * (12 / 10))
     \<and> (0 \<le> synthetic_weight gen \<and> synthetic_weight gen \<le> 5 / 6
          \<longrightarrow> 0 \<le> weight p \<and> weight p \<le> 1)"
    unfolding pair_ok_def default_strategies_def by auto
qed

theorem pair_weights_witness:
  "fst (generate_preferences example_generator empty_classifier
          [example_rule_strong, example_rule_weak] None None)
     = [example_pair ''confidence'' (3 / 10)]
   \<and> (0::real) \<le> synthetic_weight example_generator
   \<and> synthetic_weight example_generator \<le> 5 / 6
   \<and> synthetic (example_pair ''confidence'' (3 / 10))
   \<and> weight (example_pair ''confidence'' (3 / 10)) = synthetic_weight example_generator
   \<and> 0 \<le> weight (example_pair ''confidence'' (3 / 10))
   \<and> weight (example_pair ''confidence'' (3 / 10)) \<le> 1"
  using pair_weights [of example_generator empty_classifier
                         "[example_rule_strong, example_rule_weak]" None None]
  by (simp add: example_output example_pair_fields example_generator_weight)

text \<open>
  C7. Running \<open>generate_preferences\<close> a second time, on the classifier the first run
  left behind and with the same rules, trace context, strategies and configuration, yields
  the same set of (preferred, rejected, source) triples, indeed the same list of pairs;
  the first run leaves the classifier as it was.
\<close>

theorem generate_preferences_repeatable:
  "pair_triple ` set (fst (generate_preferences gen
                            (snd (generate_preferences gen st rules tc strategies))
                            rules tc strategies))
   = pair_triple ` set (fst (generate_preferences gen st rules tc strategies))
   \<and> fst (generate_preferences gen
            (snd (generate_preferences gen st rules tc strategies)) rules tc strategies)
     = fst (generate_preferences gen st rules tc strategies)
   \<and> snd (generate_preferences gen st rules tc strategies) = st"
  by (simp add: generate_preferences_def Let_def classify_rules_state)

lemma truthy_str_iff: "truthy_str s \<longleftrightarrow> s \<noteq> []"
  by (simp add: truthy_str_def split: list.split)

lemma truthy_opt_str_iff: "truthy_opt_str x \<longleftrightarrow> (\<exists>s. x = Some s \<and> s \<noteq> [])"
  by (cases x) (simp_all add: truthy_opt_str_def truthy_str_iff)

lemma truthy_opt_list_iff: "truthy_opt_list x \<longleftrightarrow> (\<exists>xs. x = Some xs \<and> xs \<noteq> [])"
  by (simp add: truthy_opt_list_def split: option.split list.split)

lemma truthy_opt_bool_iff: "truthy_opt_bool x \<longleftrightarrow> x = Some True"
  by (cases x) (simp_all add: truthy_opt_bool_def)

lemma pc_truthy_platform: "pc_platform pc = Some s \<Longrightarrow> pc_truthy pc"
  by (simp add: pc_truthy_def present_def)

lemma pc_truthy_endpoints: "pc_api_endpoints pc = Some s \<Longrightarrow> pc_truthy pc"
  by (simp add: pc_truthy_def present_def)

lemma tm_truthy_suitable: "tm_suitable_for_training tm = Some b \<Longrightarrow> tm_truthy tm"
  by (simp add: tm_truthy_def present_def)

text \<open>
  C6 as stated fails: a data-source field does not count.  The example rule has a
  platform, an extraction method and a data source but no API endpoint; the score of the
  specification is 0.7, the score of the code is 0.6.
\<close>

theorem quality_score_data_source_counterexample:
  "spec_quality_score example_generator example_rule_data_source = 7 / 10
   \<and> compute_quality_score example_generator example_rule_data_source = 6 / 10
   \<and> compute_quality_score example_generator example_rule_data_source
       \<noteq> spec_quality_score example_generator example_rule_data_source"
  by code_simp

text \<open>
  C6, amended. The quality score is 0.2 if \<open>rule_id\<close>, description and scope are
  non-empty, plus 0.2 if the description has at most 150 characters and at most 20 words,
  plus 0.2 if \<open>platform_context\<close> has a non-empty platform and a non-empty extraction
  method, plus 0.1 if \<open>platform_context\<close> has a non-empty \<open>api_endpoints\<close> field, plus 0.2
  if \<open>training_metadata\<close> flags \<open>suitable_for_training\<close>, plus 0.1 if \<open>training_metadata\<close>
  is non-empty and its \<open>novelty_score\<close>, taken as 0 when absent, is at least the
  configured minimum.
\<close>

theorem quality_score_formula:
  "compute_quality_score gen rule =
     (if rule_id rule \<noteq> [] \<and> description rule \<noteq> [] \<and> scope rule \<noteq> [] then 2 / 10 else 0)
     + (if length (description rule) \<le> 150 \<and> length (split_ws (description rule)) \<le> 20
        then 2 / 10 else 0)
     + (if \<exists>pc p m. platform_context rule = Some pc \<and> pc_platform pc = Some p \<and> p \<noteq> []
                     \<and> pc_extraction_method pc = Some m \<and> m \<noteq> []
        then 2 / 10 else 0)
     + (if \<exists>pc eps. platform_context rule = Some pc \<and> pc_api_endpoints pc = Some eps
                     \<and> eps \<noteq> []
        then 1 / 10 else 0)
     + (if \<exists>tm. training_metadata rule = Some tm \<and> tm_suitable_for_training tm = Some True
        then 2 / 10 else 0)
     + (if \<exists>tm. training_metadata rule = Some tm \<and> tm_truthy tm
                 \<and> (case tm_novelty_score tm of None \<Rightarrow> 0 | Some n \<Rightarrow> n)
                     \<ge> min_novelty_score gen
        then 1 / 10 else 0)"
proof -
  have s3: "(case platform_context rule of
                  None \<Rightarrow> 0
                | Some pc \<Rightarrow>
                    if pc_truthy pc
                    then (if truthy_opt_str (pc_platform pc)
                             \<and> truthy_opt_str (pc_extraction_method pc)
                          then 2 / 10 else 0)
                         + (if truthy_opt_list (pc_api_endpoints pc) then 1 / 10 else 0)
                    else 0)
     = (if \<exists>pc p m. platform_context rule = Some pc \<and> pc_platform pc = Some p \<and> p \<noteq> []
                     \<and> pc_extraction_method pc = Some m \<and> m \<noteq> []
        then 2 / 10 else 0)
     + (if \<exists>pc eps. platform_context rule = Some pc \<and> pc_api_endpoints pc = Some eps
                     \<and> eps \<noteq> []
        then 1 / 10 else (0::real))"
    by (cases "platform_context rule")
       (auto simp: truthy_opt_str_iff truthy_opt_list_iff pc_truthy_platform
          pc_truthy_endpoints)
  have s4: "(case training_metadata rule of
                  None \<Rightarrow> 0
                | Some tm \<Rightarrow>
                    if tm_truthy tm
                    then (if truthy_opt_bool (tm_suitable_for_training tm) then 2 / 10 else 0)
                         + (if (case tm_novelty_score tm of None \<Rightarrow> 0 | Some n \<Rightarrow> n)
                                 \<ge> min_novelty_score gen
                            then 1 / 10 else 0)
                    else 0)
     = (if \<exists>tm. training_metadata rule = Some tm \<and> tm_suitable_for_training tm = Some True
        then 2 / 10 else 0)
     + (if \<exists>tm. training_metadata rule = Some tm \<and> tm_truthy tm
                 \<and> (case tm_novelty_score tm of None \<Rightarrow> 0 | Some n \<Rightarrow> n)
                     \<ge> min_novelty_score gen
        then 1 / 10 else (0::real))"
    by (cases "training_metadata rule")
       (auto simp: truthy_opt_bool_iff tm_truthy_suitable)
  show ?thesis
    unfolding compute_quality_score_def Let_def s3 s4
    by (simp add: truthy_str_iff)
qed

section \<open>Properties of rule validation\<close>

text \<open>
  C9 as stated fails: \<open>platform_context\<close> is a seventh required field, so a record with
  the six other fields only is reported invalid.
\<close>

theorem validate_rule_six_fields_counterexample:
  "validate_rule example_rule_dict = Inr (False, [MissingRequiredField ''platform_context''])
   \<and> validate_rule example_rule_dict \<noteq> Inr (True, [])"
  by code_simp

text \<open>
  C9, amended. A rule record that has \<open>rule_id\<close>, description, scope, abstraction level,
  triggering actions and confidence, with a confidence in the unit interval, a
  description of at most 20 words, and scope and abstraction level from their
  enumerations, is accepted when it also has a \<open>platform_context\<close> dictionary with the
  keys platform and extraction\_method; without any \<open>platform_context\<close> it is reported
  invalid with the single error that this required field is missing (the checks of the
  keys platform and extraction\_method then add no error).
\<close>

theorem validate_rule_requires_platform_context:
  assumes "map_of rule ''rule_id'' = Some rid"
    and "map_of rule ''description'' = Some (PStr desc)"
    and "length (split_ws desc) \<le> 20"
    and "map_of rule ''scope'' = Some (PStr sc)"
    and "sc \<in> set valid_scopes"
    and "map_of rule ''abstraction_level'' = Some (PStr lvl)"
    and "lvl \<in> set valid_levels"
    and "map_of rule ''triggering_actions'' = Some acts"
    and "map_of rule ''confidence'' = Some (PFloat c)"
    and "0 \<le> c" and "c \<le> 1"
  shows "(map_of rule ''platform_context'' = None
            \<longrightarrow> validate_rule rule = Inr (False, [MissingRequiredField ''platform_context'']))
       \<and> (\<forall>pc pl m. map_of rule ''platform_context'' = Some (PDict pc)
                     \<and> map_of pc ''platform'' = Some pl
                     \<and> map_of pc ''extraction_method'' = Some m
            \<longrightarrow> validate_rule rule = Inr (True, []))"
proof -
  have d: "check_description rule = Inr []"
    using assms(2,3) by (simp add: check_description_def Let_def)
  have c: "check_confidence rule = []"
    using assms(9-11) by (simp add: check_confidence_def)
  have s: "check_scope rule = []"
    using assms(4,5) by (simp add: check_scope_def)
  have l: "check_abstraction_level rule = []"
    using assms(6,7) by (simp add: check_abstraction_level_def)
  have r1: "map_of rule ''platform_context'' = None \<Longrightarrow>
              check_required rule = [MissingRequiredField ''platform_context'']"
    using assms(1,2,4,6,8,9) by (simp add: check_required_def required_fields_def)
  have r2: "map_of rule ''platform_context'' = Some v \<Longrightarrow> check_required rule = []" for v
    using assms(1,2,4,6,8,9) by (simp add: check_required_def required_fields_def)
  show ?thesis
    by (auto simp: validate_rule_def d c s l r1 r2 check_platform_context_def)
qed

lemma example_description_words:
  "length (split_ws ''Increase spacing for better readability'') \<le> 20"
  by code_simp

theorem validate_rule_requires_platform_context_witness:
  "validate_rule example_rule_dict = Inr (False, [MissingRequiredField ''platform_context''])
   \<and> validate_rule example_rule_dict_with_context = Inr (True, [])"
  using validate_rule_requires_platform_context
          [of example_rule_dict "PStr ''r1''" "''Increase spacing for better readability''"
              "''artifact_property''" "''specific''" "PList [PStr ''resize'']" "85 / 100"]
        validate_rule_requires_platform_context
          [of example_rule_dict_with_context "PStr ''r1''"
              "''Increase spacing for better readability''"
              "''artifact_property''" "''specific''" "PList [PStr ''resize'']" "85 / 100"]
        example_description_words
  by (simp add: example_rule_dict_def example_rule_dict_with_context_def valid_scopes_def
        valid_levels_def)

end
